theory Spec2Isabelle
  imports Main
begin

section \<open>The locale layer of \<^verbatim>\<open>frontend/src/core/i18n.ts\<close>\<close>

text \<open>
  A JavaScript string is modelled as a \<^typ>\<open>string\<close>, one \<^typ>\<open>char\<close> per code unit
  in the range 0 to 255 (ASCII and Latin-1). Every locale code of the catalog is ASCII.
\<close>

subsection \<open>JavaScript values and objects\<close>

text \<open>
  The two objects of the module, \<^verbatim>\<open>supportedLanguages\<close> and
  \<^verbatim>\<open>baseLanguageToFullCode\<close>, are plain object literals, so both inherit from
  \<^verbatim>\<open>Object.prototype\<close>. The operator \<^verbatim>\<open>in\<close> and a property read
  \<^verbatim>\<open>obj[key]\<close> follow the prototype chain; \<^verbatim>\<open>Object.keys\<close> does not.
  A property read therefore yields either a string stored by the module, or a member of
  \<^verbatim>\<open>Object.prototype\<close> (a function, or the prototype object itself for
  \<^verbatim>\<open>__proto__\<close>), or \<^verbatim>\<open>undefined\<close> (modelled as \<open>None\<close>).
\<close>

datatype js_value = JSString string | JSInherited string

definition Object_prototype_keys :: "string list" where
  "Object_prototype_keys =
     [''constructor'', ''__defineGetter__'', ''__defineSetter__'', ''hasOwnProperty'',
      ''__lookupGetter__'', ''__lookupSetter__'', ''isPrototypeOf'',
      ''propertyIsEnumerable'', ''toString'', ''valueOf'', ''__proto__'',
      ''toLocaleString'']"

text \<open>Truthiness: the empty string is falsy, every object is truthy.\<close>

fun js_truthy :: "js_value \<Rightarrow> bool" where
  "js_truthy (JSString s) = (s \<noteq> [])"
| "js_truthy (JSInherited n) = True"

text \<open>
  \<^verbatim>\<open>key in obj\<close> for an object literal whose own keys are \<open>keys\<close>. A left operand
  that is not a string is converted to one first; a member of \<^verbatim>\<open>Object.prototype\<close>
  converts to its source text (\<^verbatim>\<open>function toString() { [native code] }\<close>,
  \<^verbatim>\<open>[object Object]\<close>), which names no property.
\<close>

fun js_in :: "js_value \<Rightarrow> string list \<Rightarrow> bool" where
  "js_in (JSString k) keys = (k \<in> set keys \<or> k \<in> set Object_prototype_keys)"
| "js_in (JSInherited n) keys = False"

text \<open>\<^verbatim>\<open>obj[key]\<close> for an object literal whose own properties are the map \<open>own\<close>.\<close>

definition js_get :: "(string \<rightharpoonup> string) \<Rightarrow> string \<Rightarrow> js_value option" where
  "js_get own k =
     (case own k of
        Some v \<Rightarrow> Some (JSString v)
      | None \<Rightarrow> if k \<in> set Object_prototype_keys then Some (JSInherited k) else None)"

text \<open>\<^verbatim>\<open>if (x)\<close> and \<^verbatim>\<open>!x\<close> on a value that may be \<^verbatim>\<open>undefined\<close> or \<^verbatim>\<open>null\<close>.\<close>

fun js_truthy_opt :: "js_value option \<Rightarrow> bool" where
  "js_truthy_opt None = False"
| "js_truthy_opt (Some v) = js_truthy v"

subsection \<open>String operations\<close>

text \<open>
  \<^verbatim>\<open>toLowerCase\<close> on code units up to 255: the letters A to Z and the Latin-1 capitals
  (0xC0 to 0xDE, without the multiplication sign 0xD7) move up by 0x20.
\<close>

definition toLowerCase_unit :: "char \<Rightarrow> char" where
  "toLowerCase_unit c =
     (let n = (of_char c :: nat)
      in if (65 \<le> n \<and> n \<le> 90) \<or> (192 \<le> n \<and> n \<le> 222 \<and> n \<noteq> 215)
         then char_of (n + 32) else c)"

definition toLowerCase :: "string \<Rightarrow> string" where
  "toLowerCase s = map toLowerCase_unit s"

text \<open>\<^verbatim>\<open>s.replaceAll('_', '-')\<close>\<close>

definition replaceAll_underscore :: "string \<Rightarrow> string" where
  "replaceAll_underscore s = map (\<lambda>c. if c = CHR ''_'' then CHR ''-'' else c) s"

text \<open>\<^verbatim>\<open>s.split('-')[0]\<close>: the part before the first hyphen, all of \<open>s\<close> when it has none.\<close>

definition split_hyphen_first :: "string \<Rightarrow> string" where
  "split_hyphen_first s = takeWhile (\<lambda>c. c \<noteq> CHR ''-'') s"

subsection \<open>The catalog\<close>

text \<open>
  \<^verbatim>\<open>Object.keys(supportedLanguages)\<close>, in insertion order. The values of the object
  (the native display names) are read by none of the functions below; only its keys are
  kept.
\<close>

definition supportedLanguages :: "string list" where
  "supportedLanguages =
     [''en-GB'', ''ar-AR'', ''az-AZ'', ''bg-BG'', ''ca-CA'', ''cs-CZ'', ''da-DK'',
      ''de-DE'', ''el-GR'', ''es-ES'', ''eu-ES'', ''fa-IR'', ''fr-FR'', ''ga-IE'',
      ''hi-IN'', ''hr-HR'', ''hu-HU'', ''id-ID'', ''it-IT'', ''ja-JP'', ''ko-KR'',
      ''ml-ML'', ''nl-NL'', ''no-NB'', ''pl-PL'', ''pt-BR'', ''pt-PT'', ''ro-RO'',
      ''ru-RU'', ''sk-SK'', ''sl-SI'', ''sr-LATN-RS'', ''sv-SE'', ''th-TH'', ''tr-TR'',
      ''uk-UA'', ''vi-VN'', ''zh-BO'', ''zh-CN'', ''zh-TW'']"

definition rtlLanguages :: "string list" where
  "rtlLanguages = [''ar-AR'', ''fa-IR'']"

subsection \<open>The index from base language to full code\<close>

text \<open>
  The loop over the catalog's keys that fills \<^verbatim>\<open>baseLanguageToFullCode\<close>; \<open>m\<close> holds
  the object's own properties so far. The assignment is reached only when the read is
  falsy, so never for the keys \<^verbatim>\<open>constructor\<close> and \<^verbatim>\<open>__proto__\<close>.
\<close>

fun baseLanguageToFullCode_loop ::
  "string list \<Rightarrow> (string \<rightharpoonup> string) \<Rightarrow> (string \<rightharpoonup> string)" where
  "baseLanguageToFullCode_loop [] m = m"
| "baseLanguageToFullCode_loop (code # codes) m =
     (let baseLang = toLowerCase (split_hyphen_first code)
      in baseLanguageToFullCode_loop codes
           (if \<not> js_truthy_opt (js_get m baseLang) then m(baseLang \<mapsto> code) else m))"

text \<open>
  The index built over a catalog with the given keys, with the special case
  \<^verbatim>\<open>baseLanguageToFullCode['en'] = 'en-GB'\<close> applied after the loop.
\<close>

definition baseLanguageToFullCode_over :: "string list \<Rightarrow> (string \<rightharpoonup> string)" where
  "baseLanguageToFullCode_over keys =
     (baseLanguageToFullCode_loop keys Map.empty)(''en'' \<mapsto> ''en-GB'')"

definition baseLanguageToFullCode :: "string \<rightharpoonup> string" where
  "baseLanguageToFullCode = baseLanguageToFullCode_over supportedLanguages"

subsection \<open>Normalisation\<close>

text \<open>
  \<^verbatim>\<open>normalizeLocale\<close> over a catalog with the given keys. Its declared return type is
  \<^verbatim>\<open>string\<close>, but the property read can hand back an inherited member.
\<close>

definition normalizeLocale_over :: "string list \<Rightarrow> string \<Rightarrow> js_value" where
  "normalizeLocale_over keys locale =
     (let normalized = replaceAll_underscore locale
      in if js_in (JSString normalized) keys then JSString normalized
         else
           let baseLang = toLowerCase (split_hyphen_first normalized);
               mappedLang = js_get (baseLanguageToFullCode_over keys) baseLang
           in (case mappedLang of
                 Some v \<Rightarrow> if js_truthy v then v else JSString normalized
               | None \<Rightarrow> JSString normalized))"

definition normalizeLocale :: "string \<Rightarrow> js_value" where
  "normalizeLocale = normalizeLocale_over supportedLanguages"

text \<open>The detector option \<^verbatim>\<open>convertDetectedLanguage\<close>.\<close>

definition convertDetectedLanguage :: "string \<Rightarrow> js_value" where
  "convertDetectedLanguage lng =
     (if js_in (JSString lng) supportedLanguages then JSString lng
      else
        let baseLang = toLowerCase (split_hyphen_first lng);
            mappedLang = js_get baseLanguageToFullCode baseLang
        in (case mappedLang of
              Some v \<Rightarrow> if js_truthy v then v else JSString lng
            | None \<Rightarrow> JSString lng))"

subsection \<open>The mutable state\<close>

text \<open>
  \<open>supportedLngs\<close> is \<^verbatim>\<open>i18n.options.supportedLngs\<close>, \<open>language\<close> is
  \<^verbatim>\<open>i18n.language\<close> (\<open>None\<close> for \<^verbatim>\<open>undefined\<close>), \<open>i18nextLng\<close> is what
  \<^verbatim>\<open>localStorage.getItem('i18nextLng')\<close> returns (\<open>None\<close> for \<^verbatim>\<open>null\<close>), and the
  last two fields are the attributes \<^verbatim>\<open>dir\<close> and \<^verbatim>\<open>lang\<close> of the document element.
\<close>

record i18n_state =
  supportedLngs :: "string list"
  language :: "string option"
  i18nextLng :: "string option"
  document_dir :: string
  document_lang :: string

text \<open>
  Modelled from the spec: \<^verbatim>\<open>i18n.changeLanguage\<close> belongs to the i18next library, which
  is not part of the sources. As the specification describes it, it makes its argument the
  active locale; the \<^verbatim>\<open>languageChanged\<close> handler of the module then sets the two
  document attributes.
\<close>

definition changeLanguage :: "string \<Rightarrow> i18n_state \<Rightarrow> i18n_state" where
  "changeLanguage lng s =
     s\<lparr>language := Some lng,
       document_dir := (if lng \<in> set rtlLanguages then ''rtl'' else ''ltr''),
       document_lang := lng\<rparr>"

text \<open>
  \<^verbatim>\<open>new Set([...])\<close> followed by \<^verbatim>\<open>Array.from\<close>: the elements in insertion order,
  each kept at its first occurrence.
\<close>

fun Set_from :: "string list \<Rightarrow> string list \<Rightarrow> string list" where
  "Set_from acc [] = acc"
| "Set_from acc (x # xs) = Set_from (if x \<in> set acc then acc else acc @ [x]) xs"

definition updateSupportedLanguages ::
  "string list option \<Rightarrow> i18n_state \<Rightarrow> i18n_state" where
  "updateSupportedLanguages configLanguages s =
     (case configLanguages of
        None \<Rightarrow> s
      | Some cl \<Rightarrow>
          if length cl = 0 then s
          else
            let languagesToSupport = Set_from [] (''en-GB'' # cl);
                validLanguages =
                  filter (\<lambda>lang. js_in (JSString lang) supportedLanguages) languagesToSupport
            in if length validLanguages > 0
               then
                 let s' = s\<lparr>supportedLngs := validLanguages\<rparr>
                 in (case language s' of
                       None \<Rightarrow> s'
                     | Some currentLang \<Rightarrow>
                         if currentLang \<noteq> [] \<and> currentLang \<notin> set validLanguages
                         then changeLanguage ''en-GB'' s' else s')
               else s)"

text \<open>
  \<^verbatim>\<open>applyDefaultLocale\<close>. An absent or empty argument returns at once, and so does a
  stored preference that is truthy. A normalised value that is no string never passes the
  test \<^verbatim>\<open>in supportedLanguages\<close>.
\<close>

definition applyDefaultLocale :: "string option \<Rightarrow> i18n_state \<Rightarrow> i18n_state" where
  "applyDefaultLocale defaultLocale s =
     (case defaultLocale of
        None \<Rightarrow> s
      | Some d \<Rightarrow>
          if d = [] then s
          else if (case i18nextLng s of None \<Rightarrow> False | Some userPreference \<Rightarrow> userPreference \<noteq> [])
          then s
          else
            let normalizedLocale = normalizeLocale d
            in if js_in normalizedLocale supportedLanguages
               then (case normalizedLocale of
                       JSString lng \<Rightarrow> changeLanguage lng s
                     | JSInherited n \<Rightarrow> s)
               else s)"

section \<open>Facts about the helpers\<close>

subsection \<open>Insertion-ordered sets\<close>

lemma set_Set_from: "set (Set_from acc xs) = set acc \<union> set xs"
  by (induction xs arbitrary: acc) auto

lemma distinct_Set_from: "distinct acc \<Longrightarrow> distinct (Set_from acc xs)"
  by (induction xs arbitrary: acc) auto

lemma filter_Set_from_none:
  "\<forall>x \<in> set xs. \<not> P x \<Longrightarrow> filter P (Set_from acc xs) = filter P acc"
  by (induction xs arbitrary: acc) auto

lemma Set_from_append: "\<exists>ys. Set_from acc xs = acc @ ys"
  by (induction xs arbitrary: acc) (auto, metis append.assoc)

lemma Set_from_fallback_first: "\<exists>ys. Set_from [] (''en-GB'' # cl) = ''en-GB'' # ys"
  using Set_from_append [of "[''en-GB'']" cl] by simp

subsection \<open>Strings\<close>

lemma length_toLowerCase: "length (toLowerCase s) = length s"
  by (simp add: toLowerCase_def)

lemma replaceAll_underscore_id: "CHR ''_'' \<notin> set s \<Longrightarrow> replaceAll_underscore s = s"
  unfolding replaceAll_underscore_def by (induction s) auto

lemma replaceAll_underscore_of_underscored:
  "CHR ''_'' \<notin> set s \<Longrightarrow>
   replaceAll_underscore (map (\<lambda>c. if c = CHR ''-'' then CHR ''_'' else c) s) = s"
  unfolding replaceAll_underscore_def by (induction s) auto

lemma split_hyphen_first_bare: "CHR ''-'' \<notin> set s \<Longrightarrow> split_hyphen_first s = s"
  unfolding split_hyphen_first_def by (induction s) auto

lemma find_in_set: "find P xs = Some x \<Longrightarrow> x \<in> set xs \<and> P x"
  by (induction xs) (auto split: if_splits)

subsection \<open>The catalog\<close>

lemma en_GB_in_catalog: "''en-GB'' \<in> set supportedLanguages"
  by (simp add: supportedLanguages_def)

lemma js_in_en_GB: "js_in (JSString ''en-GB'') supportedLanguages"
  using en_GB_in_catalog by simp

lemma catalog_codes_shape:
  "\<forall>c \<in> set supportedLanguages. CHR ''_'' \<notin> set c \<and> CHR ''-'' \<in> set c \<and> c \<noteq> []"
  by (simp add: supportedLanguages_def)

lemma catalog_base_length:
  "\<forall>c \<in> set supportedLanguages. length (toLowerCase (split_hyphen_first c)) = 2"
  by code_simp

lemma catalog_base_en:
  "\<forall>c \<in> set supportedLanguages.
     toLowerCase (split_hyphen_first c) = ''en'' \<longrightarrow> c = ''en-GB''"
  by code_simp

lemma prototype_key_length: "\<forall>n \<in> set Object_prototype_keys. 2 < length n"
  by (simp add: Object_prototype_keys_def)

subsection \<open>The index\<close>

text \<open>
  What the loop leaves under a key \<open>b\<close>: an entry that was truthy before the loop (or an
  inherited member) blocks every assignment; otherwise the first code of the catalog with
  base language \<open>b\<close> is stored, and later ones are skipped.
\<close>

lemma loop_lookup:
  assumes "[] \<notin> set keys"
  shows "baseLanguageToFullCode_loop keys m b =
           (if js_truthy_opt (js_get m b) then m b
            else case find (\<lambda>c. toLowerCase (split_hyphen_first c) = b) keys of
                   Some c \<Rightarrow> Some c
                 | None \<Rightarrow> m b)"
  using assms
proof (induction keys arbitrary: m)
  case Nil
  then show ?case by simp
next
  case (Cons code codes)
  then have ne: "code \<noteq> []" and rest: "[] \<notin> set codes" by auto
  show ?case
    using Cons.IH [OF rest] ne
    by (auto simp: Let_def js_get_def split: option.splits)
qed

lemma index_lookup:
  assumes "[] \<notin> set keys"
  shows "js_get (baseLanguageToFullCode_over keys) b =
           (if b = ''en'' then Some (JSString ''en-GB'')
            else if b \<in> set Object_prototype_keys then Some (JSInherited b)
            else case find (\<lambda>c. toLowerCase (split_hyphen_first c) = b) keys of
                   Some c \<Rightarrow> Some (JSString c)
                 | None \<Rightarrow> None)"
  by (simp add: baseLanguageToFullCode_over_def js_get_def loop_lookup [OF assms]
      split: option.splits)

subsection \<open>Normalisation\<close>

lemma normalizeLocale_over_pinned:
  assumes "CHR ''-'' \<notin> set t" and "CHR ''_'' \<notin> set t"
      and "\<not> js_in (JSString t) keys" and "toLowerCase t = ''en''"
  shows "normalizeLocale_over keys t = JSString ''en-GB''"
  using assms
  by (simp add: normalizeLocale_over_def Let_def replaceAll_underscore_id
      split_hyphen_first_bare baseLanguageToFullCode_over_def js_get_def)

lemma normalizeLocale_over_first_match:
  assumes keys: "set keys = set supportedLanguages"
      and bare: "CHR ''-'' \<notin> set t" "CHR ''_'' \<notin> set t"
      and found: "find (\<lambda>c. toLowerCase (split_hyphen_first c) = toLowerCase t) keys = Some c"
  shows "normalizeLocale_over keys t = JSString c"
proof -
  from found have c: "c \<in> set keys"
    and base: "toLowerCase (split_hyphen_first c) = toLowerCase t"
    using find_in_set [of _ keys c] by auto
  have ne: "[] \<notin> set keys"
    using keys catalog_codes_shape by auto
  have "c \<noteq> []"
    using c ne by auto
  have "length t = 2"
    using c base keys catalog_base_length length_toLowerCase [of t] by auto
  then have not_proto: "t \<notin> set Object_prototype_keys"
      and not_proto': "toLowerCase t \<notin> set Object_prototype_keys"
    using prototype_key_length length_toLowerCase [of t] by auto
  have "t \<notin> set keys"
    using keys catalog_codes_shape bare(1) by auto
  then have not_in: "\<not> js_in (JSString t) keys"
    using not_proto by simp
  show ?thesis
  proof (cases "toLowerCase t = ''en''")
    case True
    then have "c = ''en-GB''"
      using c base keys catalog_base_en by auto
    then show ?thesis
      using normalizeLocale_over_pinned [OF bare not_in True] by simp
  next
    case False
    then show ?thesis
      using not_in not_proto' found \<open>c \<noteq> []\<close>
      by (simp add: normalizeLocale_over_def Let_def replaceAll_underscore_id [OF bare(2)]
          split_hyphen_first_bare [OF bare(1)] index_lookup [OF ne])
  qed
qed

lemma normalizeLocale_catalog_code:
  assumes "c \<in> set supportedLanguages"
  shows "normalizeLocale c = JSString c"
    and "normalizeLocale (map (\<lambda>x. if x = CHR ''-'' then CHR ''_'' else x) c) = JSString c"
proof -
  have no_us: "CHR ''_'' \<notin> set c"
    using assms catalog_codes_shape by auto
  show "normalizeLocale c = JSString c"
    using assms
    by (simp add: normalizeLocale_def normalizeLocale_over_def replaceAll_underscore_id [OF no_us])
  show "normalizeLocale (map (\<lambda>x. if x = CHR ''-'' then CHR ''_'' else x) c) = JSString c"
    using assms
    by (simp add: normalizeLocale_def normalizeLocale_over_def
        replaceAll_underscore_of_underscored [OF no_us])
qed

lemma normalizeLocale_empty: "normalizeLocale [] = JSString []"
  by code_simp

subsection \<open>Restricting the supported set\<close>

lemma validLanguages_nonempty:
  "filter (\<lambda>lang. js_in (JSString lang) supportedLanguages) (Set_from [] (''en-GB'' # cl)) \<noteq> []"
  using Set_from_fallback_first [of cl] js_in_en_GB by auto

lemma supportedLngs_update:
  "cl \<noteq> [] \<Longrightarrow>
   supportedLngs (updateSupportedLanguages (Some cl) s) =
     filter (\<lambda>lang. js_in (JSString lang) supportedLanguages) (Set_from [] (''en-GB'' # cl))"
  using validLanguages_nonempty [of cl]
  by (simp add: updateSupportedLanguages_def Let_def changeLanguage_def split: option.split)

lemma language_update:
  "cl \<noteq> [] \<Longrightarrow>
   language (updateSupportedLanguages (Some cl) s) =
     (case language s of
        None \<Rightarrow> None
      | Some l \<Rightarrow>
          if l \<noteq> [] \<and> l \<notin> set (supportedLngs (updateSupportedLanguages (Some cl) s))
          then Some ''en-GB'' else Some l)"
  using validLanguages_nonempty [of cl]
  by (auto simp: updateSupportedLanguages_def Let_def changeLanguage_def split: option.split)

lemma i18nextLng_update: "i18nextLng (updateSupportedLanguages a s) = i18nextLng s"
  by (simp add: updateSupportedLanguages_def Let_def changeLanguage_def split: option.split)

lemma update_absent: "updateSupportedLanguages None s = s"
  by (simp add: updateSupportedLanguages_def)

lemma update_empty: "updateSupportedLanguages (Some []) s = s"
  by (simp add: updateSupportedLanguages_def)

lemma fallback_in_update:
  "cl \<noteq> [] \<Longrightarrow> ''en-GB'' \<in> set (supportedLngs (updateSupportedLanguages (Some cl) s))"
  using js_in_en_GB by (simp add: supportedLngs_update set_Set_from)

lemma update_preserves_fallback:
  "''en-GB'' \<in> set (supportedLngs s) \<Longrightarrow>
   ''en-GB'' \<in> set (supportedLngs (updateSupportedLanguages a s))"
proof (cases a)
  case None
  then show "''en-GB'' \<in> set (supportedLngs s) \<Longrightarrow> ?thesis" by (simp add: update_absent)
next
  case (Some cl)
  then show "''en-GB'' \<in> set (supportedLngs s) \<Longrightarrow> ?thesis"
    by (cases "cl = []") (simp_all add: update_empty fallback_in_update)
qed

lemma fold_update_preserves_fallback:
  "''en-GB'' \<in> set (supportedLngs s) \<Longrightarrow>
   ''en-GB'' \<in> set (supportedLngs (fold updateSupportedLanguages args s))"
  by (induction args arbitrary: s) (simp_all add: update_preserves_fallback)

text \<open>
  The supported set after a restriction, as a set: the requested codes and the fallback,
  cut down to what \<^verbatim>\<open>in supportedLanguages\<close> accepts, which is the catalog and the
  names inherited from \<^verbatim>\<open>Object.prototype\<close>.
\<close>

lemma set_supportedLngs_update:
  "cl \<noteq> [] \<Longrightarrow>
   set (supportedLngs (updateSupportedLanguages (Some cl) s)) =
     (set cl \<union> {''en-GB''}) \<inter> (set supportedLanguages \<union> set Object_prototype_keys)"
  by (auto simp: supportedLngs_update set_Set_from)

lemma set_supportedLngs_update_no_inherited:
  "cl \<noteq> [] \<Longrightarrow> set cl \<inter> set Object_prototype_keys = {} \<Longrightarrow>
   set (supportedLngs (updateSupportedLanguages (Some cl) s)) =
     (set cl \<union> {''en-GB''}) \<inter> set supportedLanguages"
  using en_GB_in_catalog by (auto simp: set_supportedLngs_update)

subsection \<open>Applying the default locale\<close>

lemma applyDefaultLocale_catalog:
  assumes "d \<noteq> []" and "i18nextLng s = None \<or> i18nextLng s = Some []"
      and "normalizeLocale d = JSString c" and "c \<in> set supportedLanguages"
  shows "applyDefaultLocale (Some d) s = changeLanguage c s"
  using assms by (auto simp: applyDefaultLocale_def)

section \<open>The claims\<close>

text \<open>
  In the examples below a state is written out as a record. A state whose
  \<open>supportedLngs\<close> is \<open>supportedLanguages\<close> is one in which no restriction has been
  applied yet: \<^verbatim>\<open>init\<close> is given \<^verbatim>\<open>Object.keys(supportedLanguages)\<close>.
\<close>

subsection \<open>Restricting the supported set\<close>

text \<open>
  \<^bold>\<open>C1\<close>, as amended. When \<^verbatim>\<open>configLanguages\<close> is non-empty and none of its codes
  passes the test \<^verbatim>\<open>in supportedLanguages\<close>, the supported set is not left as it was:
  the fallback code is injected before the filter, so the set becomes exactly
  \<^verbatim>\<open>['en-GB']\<close>.
\<close>

theorem updateSupportedLanguages_all_invalid:
  assumes "cl \<noteq> []"
      and "\<forall>c \<in> set cl. \<not> js_in (JSString c) supportedLanguages"
  shows "supportedLngs (updateSupportedLanguages (Some cl) s) = [''en-GB'']"
proof -
  have "filter (\<lambda>lang. js_in (JSString lang) supportedLanguages) (Set_from [''en-GB''] cl)
        = filter (\<lambda>lang. js_in (JSString lang) supportedLanguages) [''en-GB'']"
    using assms(2) by (rule filter_Set_from_none)
  then show ?thesis
    using assms(1) js_in_en_GB by (simp add: supportedLngs_update)
qed

theorem updateSupportedLanguages_all_invalid_witness:
  "\<not> js_in (JSString ''zz-ZZ'') supportedLanguages \<and>
   \<not> js_in (JSString ''xx'') supportedLanguages \<and>
   supportedLngs (updateSupportedLanguages (Some [''zz-ZZ'', ''xx''])
      \<lparr>supportedLngs = supportedLanguages, language = Some ''ja-JP'', i18nextLng = None,
        document_dir = ''ltr'', document_lang = ''ja-JP''\<rparr>) = [''en-GB'']"
proof -
  have h1: "[''zz-ZZ'', ''xx''] \<noteq> []" by simp
  have h2: "\<forall>c \<in> set [''zz-ZZ'', ''xx'']. \<not> js_in (JSString c) supportedLanguages"
    by (simp add: supportedLanguages_def Object_prototype_keys_def)
  from h2 updateSupportedLanguages_all_invalid [OF h1 h2] show ?thesis by simp
qed

text \<open>
  The claim as it was stated fails on the code: from the default state,
  \<^verbatim>\<open>updateSupportedLanguages(['zz-ZZ'])\<close> changes the supported set.
\<close>

theorem updateSupportedLanguages_all_invalid_counterexample:
  "''zz-ZZ'' \<notin> set supportedLanguages \<and>
   supportedLngs (updateSupportedLanguages (Some [''zz-ZZ''])
      \<lparr>supportedLngs = supportedLanguages, language = Some ''en-GB'', i18nextLng = None,
        document_dir = ''ltr'', document_lang = ''en-GB''\<rparr>)
   \<noteq> supportedLngs
      \<lparr>supportedLngs = supportedLanguages, language = Some ''en-GB'', i18nextLng = None,
        document_dir = ''ltr'', document_lang = ''en-GB''\<rparr>"
  by (simp add: supportedLngs_update supportedLanguages_def Object_prototype_keys_def)

text \<open>
  \<^bold>\<open>C2\<close>, as amended. With an absent or an empty argument
  \<^verbatim>\<open>updateSupportedLanguages\<close> returns at once: the whole state, and with it the
  supported set, is what it was before the call. The supported set is the full catalog
  afterwards exactly when it was the full catalog before.
\<close>

theorem updateSupportedLanguages_absent_or_empty:
  "updateSupportedLanguages None s = s \<and> updateSupportedLanguages (Some []) s = s \<and>
   (supportedLngs s = supportedLanguages \<longrightarrow>
      supportedLngs (updateSupportedLanguages None s) = supportedLanguages \<and>
      supportedLngs (updateSupportedLanguages (Some []) s) = supportedLanguages)"
  by (simp add: updateSupportedLanguages_def)

theorem updateSupportedLanguages_absent_or_empty_witness:
  "supportedLngs (updateSupportedLanguages None
      \<lparr>supportedLngs = supportedLanguages, language = Some ''ja-JP'', i18nextLng = None,
        document_dir = ''ltr'', document_lang = ''ja-JP''\<rparr>) = supportedLanguages \<and>
   supportedLngs (updateSupportedLanguages (Some [])
      \<lparr>supportedLngs = supportedLanguages, language = Some ''ja-JP'', i18nextLng = None,
        document_dir = ''ltr'', document_lang = ''ja-JP''\<rparr>) = supportedLanguages"
proof -
  let ?s = "\<lparr>supportedLngs = supportedLanguages, language = Some ''ja-JP'', i18nextLng = None,
        document_dir = ''ltr'', document_lang = ''ja-JP''\<rparr>"
  have h: "supportedLngs ?s = supportedLanguages" by simp
  from updateSupportedLanguages_absent_or_empty [of ?s] h show ?thesis by blast
qed

text \<open>
  The claim as it was stated fails on the code: after a restriction to \<^verbatim>\<open>['de-DE']\<close>,
  neither call brings the full catalog back.
\<close>

theorem updateSupportedLanguages_absent_or_empty_counterexample:
  "supportedLngs (updateSupportedLanguages None (updateSupportedLanguages (Some [''de-DE''])
      \<lparr>supportedLngs = supportedLanguages, language = Some ''en-GB'', i18nextLng = None,
        document_dir = ''ltr'', document_lang = ''en-GB''\<rparr>)) \<noteq> supportedLanguages \<and>
   supportedLngs (updateSupportedLanguages (Some []) (updateSupportedLanguages (Some [''de-DE''])
      \<lparr>supportedLngs = supportedLanguages, language = Some ''en-GB'', i18nextLng = None,
        document_dir = ''ltr'', document_lang = ''en-GB''\<rparr>)) \<noteq> supportedLanguages"
  by (simp add: update_absent update_empty supportedLngs_update supportedLanguages_def
      Object_prototype_keys_def)

text \<open>
  \<^bold>\<open>C5\<close>. The code at the input \<^verbatim>\<open>['de-DE', 'toString']\<close>: the name
  \<^verbatim>\<open>toString\<close> is no catalog code, yet it passes \<^verbatim>\<open>in supportedLanguages\<close> through
  the prototype chain and stays in the supported set, where the claim has it dropped.
  With \<^verbatim>\<open>['de-DE']\<close> alone the supported set is \<^verbatim>\<open>['en-GB', 'de-DE']\<close>.
\<close>

theorem updateSupportedLanguages_keeps_inherited_name:
  "''toString'' \<notin> set supportedLanguages \<and>
   supportedLngs (updateSupportedLanguages (Some [''de-DE'', ''toString'']) s)
     = [''en-GB'', ''de-DE'', ''toString''] \<and>
   ''toString'' \<notin> (set [''de-DE'', ''toString''] \<union> {''en-GB''}) \<inter> set supportedLanguages \<and>
   supportedLngs (updateSupportedLanguages (Some [''de-DE'']) s) = [''en-GB'', ''de-DE'']"
  by (simp add: supportedLngs_update supportedLanguages_def Object_prototype_keys_def)

text \<open>
  \<^bold>\<open>C6\<close>. Whenever \<^verbatim>\<open>updateSupportedLanguages\<close> replaces the supported set (its
  argument is a non-empty list) and the active locale, a non-empty string, is not in the
  new set, the active locale becomes \<^verbatim>\<open>en-GB\<close>. With the active locale
  \<^verbatim>\<open>ja-JP\<close> and the argument \<^verbatim>\<open>['de-DE']\<close> it is \<^verbatim>\<open>en-GB\<close> afterwards.
\<close>

theorem updateSupportedLanguages_forces_fallback:
  "(cl \<noteq> [] \<and> language s = Some l \<and> l \<noteq> [] \<and>
    l \<notin> set (supportedLngs (updateSupportedLanguages (Some cl) s))
    \<longrightarrow> language (updateSupportedLanguages (Some cl) s) = Some ''en-GB'') \<and>
   language (updateSupportedLanguages (Some [''de-DE'']) (s\<lparr>language := Some ''ja-JP''\<rparr>))
     = Some ''en-GB''"
proof -
  have "language (updateSupportedLanguages (Some [''de-DE'']) (s\<lparr>language := Some ''ja-JP''\<rparr>))
          = Some ''en-GB''"
    by (simp add: language_update supportedLngs_update supportedLanguages_def
        Object_prototype_keys_def)
  then show ?thesis
    by (simp add: language_update)
qed

theorem updateSupportedLanguages_forces_fallback_witness:
  "language (updateSupportedLanguages (Some [''fr-FR'', ''it-IT''])
      \<lparr>supportedLngs = supportedLanguages, language = Some ''ar-AR'', i18nextLng = None,
        document_dir = ''rtl'', document_lang = ''ar-AR''\<rparr>) = Some ''en-GB''"
proof -
  let ?s = "\<lparr>supportedLngs = supportedLanguages, language = Some ''ar-AR'', i18nextLng = None,
        document_dir = ''rtl'', document_lang = ''ar-AR''\<rparr>"
  have h: "[''fr-FR'', ''it-IT''] \<noteq> [] \<and> language ?s = Some ''ar-AR'' \<and> ''ar-AR'' \<noteq> [] \<and>
           ''ar-AR'' \<notin> set (supportedLngs (updateSupportedLanguages (Some [''fr-FR'', ''it-IT'']) ?s))"
    by (simp add: supportedLngs_update supportedLanguages_def Object_prototype_keys_def)
  from updateSupportedLanguages_forces_fallback [of "[''fr-FR'', ''it-IT'']" ?s "''ar-AR''"] h
  show ?thesis by blast
qed

text \<open>
  \<^bold>\<open>C9\<close>. From a state whose supported set is the full catalog, after any sequence of
  calls of \<^verbatim>\<open>updateSupportedLanguages\<close>, with any arguments, the supported set is
  non-empty and contains \<^verbatim>\<open>en-GB\<close>.
\<close>

theorem updateSupportedLanguages_invariant:
  assumes "supportedLngs s = supportedLanguages"
  shows "supportedLngs (fold updateSupportedLanguages args s) \<noteq> [] \<and>
         ''en-GB'' \<in> set (supportedLngs (fold updateSupportedLanguages args s))"
proof -
  have "''en-GB'' \<in> set (supportedLngs s)"
    using assms en_GB_in_catalog by simp
  then have "''en-GB'' \<in> set (supportedLngs (fold updateSupportedLanguages args s))"
    by (rule fold_update_preserves_fallback)
  then show ?thesis by auto
qed

theorem updateSupportedLanguages_invariant_witness:
  "supportedLngs
     \<lparr>supportedLngs = supportedLanguages, language = Some ''ja-JP'', i18nextLng = None,
       document_dir = ''ltr'', document_lang = ''ja-JP''\<rparr> = supportedLanguages \<and>
   ''en-GB'' \<in> set (supportedLngs
     (fold updateSupportedLanguages [Some [''de-DE''], None, Some [''zz-ZZ''], Some []]
       \<lparr>supportedLngs = supportedLanguages, language = Some ''ja-JP'', i18nextLng = None,
         document_dir = ''ltr'', document_lang = ''ja-JP''\<rparr>))"
proof -
  let ?s = "\<lparr>supportedLngs = supportedLanguages, language = Some ''ja-JP'', i18nextLng = None,
       document_dir = ''ltr'', document_lang = ''ja-JP''\<rparr>"
  have h: "supportedLngs ?s = supportedLanguages" by simp
  from h updateSupportedLanguages_invariant
    [OF h, of "[Some [''de-DE''], None, Some [''zz-ZZ''], Some []]"]
  show ?thesis by blast
qed

subsection \<open>Applying the default locale\<close>

text \<open>
  \<^bold>\<open>C3\<close>. When the normalisation of \<^verbatim>\<open>defaultLocale\<close> is a catalog code and no
  preference is stored (\<^verbatim>\<open>getItem\<close> gives \<^verbatim>\<open>null\<close> or the empty string),
  \<^verbatim>\<open>applyDefaultLocale\<close> makes that code the active locale whatever the supported set
  holds, and leaves the supported set alone. So the active locale can be a code outside
  the supported set: after a restriction to \<^verbatim>\<open>['de-DE']\<close>, the default \<^verbatim>\<open>fr_FR\<close>
  makes \<^verbatim>\<open>fr-FR\<close> active.
\<close>

theorem applyDefaultLocale_ignores_supportedLngs:
  "(normalizeLocale d = JSString c \<and> c \<in> set supportedLanguages \<and>
    (i18nextLng s = None \<or> i18nextLng s = Some [])
    \<longrightarrow> language (applyDefaultLocale (Some d) s) = Some c \<and>
        supportedLngs (applyDefaultLocale (Some d) s) = supportedLngs s) \<and>
   language (applyDefaultLocale (Some ''fr_FR'') (updateSupportedLanguages (Some [''de-DE''])
      \<lparr>supportedLngs = supportedLanguages, language = Some ''en-GB'', i18nextLng = None,
        document_dir = ''ltr'', document_lang = ''en-GB''\<rparr>)) = Some ''fr-FR'' \<and>
   ''fr-FR'' \<notin> set (supportedLngs (applyDefaultLocale (Some ''fr_FR'')
      (updateSupportedLanguages (Some [''de-DE''])
      \<lparr>supportedLngs = supportedLanguages, language = Some ''en-GB'', i18nextLng = None,
        document_dir = ''ltr'', document_lang = ''en-GB''\<rparr>)))"
proof -
  have general: "language (applyDefaultLocale (Some d) s) = Some c \<and>
        supportedLngs (applyDefaultLocale (Some d) s) = supportedLngs s"
    if norm: "normalizeLocale d = JSString c" and cat: "c \<in> set supportedLanguages"
      and pref: "i18nextLng s = None \<or> i18nextLng s = Some []" for d c s
  proof -
    have "d \<noteq> []"
      using norm cat normalizeLocale_empty catalog_codes_shape by auto
    then have "applyDefaultLocale (Some d) s = changeLanguage c s"
      using pref norm cat by (simp add: applyDefaultLocale_catalog)
    then show ?thesis
      by (simp add: changeLanguage_def)
  qed
  let ?s0 = "\<lparr>supportedLngs = supportedLanguages, language = Some ''en-GB'', i18nextLng = None,
        document_dir = ''ltr'', document_lang = ''en-GB''\<rparr>"
  let ?s1 = "updateSupportedLanguages (Some [''de-DE'']) ?s0"
  have fr: "normalizeLocale ''fr_FR'' = JSString ''fr-FR''" by code_simp
  have fr_cat: "''fr-FR'' \<in> set supportedLanguages" by (simp add: supportedLanguages_def)
  have pref1: "i18nextLng ?s1 = None \<or> i18nextLng ?s1 = Some []"
    by (simp add: i18nextLng_update)
  have lngs1: "supportedLngs ?s1 = [''en-GB'', ''de-DE'']"
    by (simp add: supportedLngs_update supportedLanguages_def Object_prototype_keys_def)
  from general [OF fr fr_cat pref1] lngs1
  have "language (applyDefaultLocale (Some ''fr_FR'') ?s1) = Some ''fr-FR'' \<and>
        ''fr-FR'' \<notin> set (supportedLngs (applyDefaultLocale (Some ''fr_FR'') ?s1))"
    by simp
  with general show ?thesis by blast
qed

theorem applyDefaultLocale_ignores_supportedLngs_witness:
  "language (applyDefaultLocale (Some ''de_DE'')
      \<lparr>supportedLngs = [''en-GB'', ''fr-FR''], language = Some ''en-GB'', i18nextLng = None,
        document_dir = ''ltr'', document_lang = ''en-GB''\<rparr>) = Some ''de-DE'' \<and>
   supportedLngs (applyDefaultLocale (Some ''de_DE'')
      \<lparr>supportedLngs = [''en-GB'', ''fr-FR''], language = Some ''en-GB'', i18nextLng = None,
        document_dir = ''ltr'', document_lang = ''en-GB''\<rparr>) = [''en-GB'', ''fr-FR'']"
proof -
  let ?s = "\<lparr>supportedLngs = [''en-GB'', ''fr-FR''], language = Some ''en-GB'', i18nextLng = None,
        document_dir = ''ltr'', document_lang = ''en-GB''\<rparr>"
  have de: "normalizeLocale ''de_DE'' = JSString ''de-DE''" by code_simp
  have h: "normalizeLocale ''de_DE'' = JSString ''de-DE'' \<and> ''de-DE'' \<in> set supportedLanguages \<and>
           (i18nextLng ?s = None \<or> i18nextLng ?s = Some [])"
    using de by (simp add: supportedLanguages_def)
  from applyDefaultLocale_ignores_supportedLngs [of "''de_DE''" "''de-DE''" ?s] h
  have "language (applyDefaultLocale (Some ''de_DE'') ?s) = Some ''de-DE'' \<and>
        supportedLngs (applyDefaultLocale (Some ''de_DE'') ?s) = supportedLngs ?s"
    by blast
  then show ?thesis by simp
qed

text \<open>
  \<^bold>\<open>C4\<close>. When the stored preference is a non-empty string, \<^verbatim>\<open>applyDefaultLocale\<close>
  changes nothing, whatever its argument: the state after the call is the state before
  it, so the active locale is unchanged and no language change has been made.
\<close>

theorem applyDefaultLocale_keeps_user_preference:
  assumes "i18nextLng s = Some userPreference" and "userPreference \<noteq> []"
  shows "applyDefaultLocale defaultLocale s = s"
  using assms by (simp add: applyDefaultLocale_def split: option.split)

theorem applyDefaultLocale_keeps_user_preference_witness:
  "applyDefaultLocale (Some ''de_DE'')
      \<lparr>supportedLngs = supportedLanguages, language = Some ''fr-FR'', i18nextLng = Some ''fr-FR'',
        document_dir = ''ltr'', document_lang = ''fr-FR''\<rparr>
   = \<lparr>supportedLngs = supportedLanguages, language = Some ''fr-FR'', i18nextLng = Some ''fr-FR'',
        document_dir = ''ltr'', document_lang = ''fr-FR''\<rparr>"
proof -
  let ?s = "\<lparr>supportedLngs = supportedLanguages, language = Some ''fr-FR'',
        i18nextLng = Some ''fr-FR'', document_dir = ''ltr'', document_lang = ''fr-FR''\<rparr>"
  have h1: "i18nextLng ?s = Some ''fr-FR''" by simp
  have h2: "''fr-FR'' \<noteq> []" by simp
  show ?thesis
    by (rule applyDefaultLocale_keeps_user_preference [OF h1 h2])
qed

subsection \<open>Normalisation\<close>

text \<open>
  \<^bold>\<open>C7\<close>. Every catalog code is a fixed point of \<^verbatim>\<open>normalizeLocale\<close>, and the
  code with each hyphen replaced by an underscore normalises back to the code; the
  three-part code \<^verbatim>\<open>sr-LATN-RS\<close> is one of them.
\<close>

theorem normalizeLocale_fixed_points:
  "\<forall>c \<in> set supportedLanguages.
     normalizeLocale c = JSString c \<and>
     normalizeLocale (map (\<lambda>x. if x = CHR ''-'' then CHR ''_'' else x) c) = JSString c"
  using normalizeLocale_catalog_code by blast

theorem normalizeLocale_fixed_points_witness:
  "''sr-LATN-RS'' \<in> set supportedLanguages \<and>
   normalizeLocale ''sr-LATN-RS'' = JSString ''sr-LATN-RS'' \<and>
   normalizeLocale ''sr_LATN_RS'' = JSString ''sr-LATN-RS''"
proof -
  have h: "''sr-LATN-RS'' \<in> set supportedLanguages"
    by (simp add: supportedLanguages_def)
  from normalizeLocale_fixed_points h
  have "normalizeLocale ''sr-LATN-RS'' = JSString ''sr-LATN-RS'' \<and>
        normalizeLocale (map (\<lambda>x. if x = CHR ''-'' then CHR ''_'' else x) ''sr-LATN-RS'')
          = JSString ''sr-LATN-RS''"
    by blast
  with h show ?thesis by simp
qed

text \<open>
  \<^bold>\<open>C8\<close>. A bare tag \<open>t\<close> has neither hyphen nor underscore, so it is no catalog code.
  With the catalog's codes in any order \<open>keys\<close>, \<^verbatim>\<open>normalizeLocale\<close> maps \<open>t\<close> to the
  first code of \<open>keys\<close> whose base language, the lowercased part before the first hyphen,
  is the lowercased \<open>t\<close>. Over any catalog at all, whatever its codes and their order, a
  bare tag that lowercases to \<^verbatim>\<open>en\<close> and is no property of the catalog maps to
  \<^verbatim>\<open>en-GB\<close>. On the catalog as it is, \<^verbatim>\<open>es\<close> maps to \<^verbatim>\<open>es-ES\<close>, \<^verbatim>\<open>de\<close> to
  \<^verbatim>\<open>de-DE\<close>, \<^verbatim>\<open>pt\<close> to \<^verbatim>\<open>pt-BR\<close>, the first Portuguese entry, and \<^verbatim>\<open>en\<close> to
  \<^verbatim>\<open>en-GB\<close>.
\<close>

theorem normalizeLocale_base_tag:
  "(\<forall>keys t c.
      set keys = set supportedLanguages \<and> CHR ''-'' \<notin> set t \<and> CHR ''_'' \<notin> set t \<and>
      find (\<lambda>c. toLowerCase (split_hyphen_first c) = toLowerCase t) keys = Some c
      \<longrightarrow> normalizeLocale_over keys t = JSString c) \<and>
   (\<forall>keys t.
      CHR ''-'' \<notin> set t \<and> CHR ''_'' \<notin> set t \<and> \<not> js_in (JSString t) keys \<and>
      toLowerCase t = ''en''
      \<longrightarrow> normalizeLocale_over keys t = JSString ''en-GB'') \<and>
   normalizeLocale ''es'' = JSString ''es-ES'' \<and>
   normalizeLocale ''de'' = JSString ''de-DE'' \<and>
   normalizeLocale ''pt'' = JSString ''pt-BR'' \<and>
   find (\<lambda>c. toLowerCase (split_hyphen_first c) = ''pt'') supportedLanguages = Some ''pt-BR'' \<and>
   normalizeLocale ''en'' = JSString ''en-GB''"
proof -
  have es: "normalizeLocale ''es'' = JSString ''es-ES''" by code_simp
  have de: "normalizeLocale ''de'' = JSString ''de-DE''" by code_simp
  have pt: "normalizeLocale ''pt'' = JSString ''pt-BR''" by code_simp
  have pt1: "find (\<lambda>c. toLowerCase (split_hyphen_first c) = ''pt'') supportedLanguages
               = Some ''pt-BR''" by code_simp
  have en: "normalizeLocale ''en'' = JSString ''en-GB''" by code_simp
  show ?thesis
    using normalizeLocale_over_first_match normalizeLocale_over_pinned es de pt pt1 en
    by blast
qed

theorem normalizeLocale_base_tag_witness:
  "normalizeLocale_over (rev supportedLanguages) ''PT'' = JSString ''pt-PT'' \<and>
   normalizeLocale_over [''en-US'', ''en-GB''] ''en'' = JSString ''en-GB''"
proof -
  have perm: "set (rev supportedLanguages) = set supportedLanguages" by simp
  have bare: "CHR ''-'' \<notin> set ''PT''" "CHR ''_'' \<notin> set ''PT''" by simp_all
  have found: "find (\<lambda>c. toLowerCase (split_hyphen_first c) = toLowerCase ''PT'')
                 (rev supportedLanguages) = Some ''pt-PT''" by code_simp
  have bare': "CHR ''-'' \<notin> set ''en''" "CHR ''_'' \<notin> set ''en''" by simp_all
  have not_in: "\<not> js_in (JSString ''en'') [''en-US'', ''en-GB'']"
    by (simp add: Object_prototype_keys_def)
  have en: "toLowerCase ''en'' = ''en''" by code_simp
  from normalizeLocale_base_tag perm bare found
  have 1: "normalizeLocale_over (rev supportedLanguages) ''PT'' = JSString ''pt-PT''"
    by blast
  from normalizeLocale_base_tag bare' not_in en
  have 2: "normalizeLocale_over [''en-US'', ''en-GB''] ''en'' = JSString ''en-GB''"
    by blast
  from 1 2 show ?thesis by simp
qed

text \<open>
  \<^bold>\<open>C10\<close>. \<^verbatim>\<open>normalizeLocale('zh')\<close> is \<^verbatim>\<open>zh-BO\<close>, the first of the three
  catalog codes with base language \<^verbatim>\<open>zh\<close>, and \<^verbatim>\<open>convertDetectedLanguage\<close> maps a
  detected \<^verbatim>\<open>zh\<close> to the same code.
\<close>

theorem normalizeLocale_zh:
  "normalizeLocale ''zh'' = JSString ''zh-BO'' \<and>
   convertDetectedLanguage ''zh'' = JSString ''zh-BO'' \<and>
   filter (\<lambda>c. toLowerCase (split_hyphen_first c) = ''zh'') supportedLanguages
     = [''zh-BO'', ''zh-CN'', ''zh-TW'']"
proof -
  have 1: "normalizeLocale ''zh'' = JSString ''zh-BO''" by code_simp
  have 2: "convertDetectedLanguage ''zh'' = JSString ''zh-BO''" by code_simp
  have 3: "filter (\<lambda>c. toLowerCase (split_hyphen_first c) = ''zh'') supportedLanguages
             = [''zh-BO'', ''zh-CN'', ''zh-TW'']" by code_simp
  from 1 2 3 show ?thesis by simp
qed

end
